theory Spec2Isabelle
  imports Main "HOL-Library.Char_ord" "HOL-Library.List_Lexorder"
begin

section \<open>Text primitives of the Python runtime\<close>

text \<open>
  A Python \<open>str\<close> is modelled as a \<open>string\<close> whose characters are code points in the
  range 0..255. \<open>CR\<close> and \<open>LF\<close> are the two line terminators the program handles.
\<close>

definition CR :: char where
  "CR = CHR 0x0D"

definition LF :: char where
  "LF = CHR 0x0A"

text \<open>
  \<open>str.isspace\<close> on one character, which is also what the regular expression class
  \<open>\s\<close> accepts on a \<open>str\<close> pattern: tab, line feed, vertical tab, form feed, carriage
  return, the four separators 0x1C..0x1F, space, and in the upper half NEL and the
  no-break space.
\<close>

definition is_space :: "char \<Rightarrow> bool" where
  "is_space c =
     (let n = (of_char c :: nat)
      in (9 \<le> n \<and> n \<le> 13) \<or> (28 \<le> n \<and> n \<le> 32) \<or> n = 133 \<or> n = 160)"

definition lstrip :: "string \<Rightarrow> string" where
  "lstrip s = dropWhile is_space s"

definition rstrip :: "string \<Rightarrow> string" where
  "rstrip s = rev (dropWhile is_space (rev s))"

definition strip :: "string \<Rightarrow> string" where
  "strip s = rstrip (lstrip s)"

text \<open>
  \<open>str.upper\<close>. Lower-case ASCII letters move to upper case. The characters above
  0x7F are left alone here; Python maps some of them to other letters, but never to an
  ASCII letter other than through \<open>S\<close> doubled, so whether the result is one of the status
  words tested below is the same.
\<close>

definition upper_char :: "char \<Rightarrow> char" where
  "upper_char c =
     (let n = (of_char c :: nat)
      in if 97 \<le> n \<and> n \<le> 122 then char_of (n - 32) else c)"

definition upper :: "string \<Rightarrow> string" where
  "upper s = map upper_char s"

text \<open>\<open>sep.join(parts)\<close>.\<close>

fun join :: "string \<Rightarrow> string list \<Rightarrow> string" where
  "join sep [] = []"
| "join sep [x] = x"
| "join sep (x # y # ys) = x @ sep @ join sep (y # ys)"

text \<open>
  \<open>content.replace('\r\n', '\r').replace('\n', '\r')\<close>: the first pass rewrites every
  CR LF pair, scanning from the left; the second rewrites every remaining LF.
\<close>

fun replace_crlf :: "string \<Rightarrow> string" where
  "replace_crlf [] = []"
| "replace_crlf [c] = [c]"
| "replace_crlf (c # d # cs) =
     (if c = CR \<and> d = LF then CR # replace_crlf cs else c # replace_crlf (d # cs))"

definition replace_lf :: "string \<Rightarrow> string" where
  "replace_lf s = map (\<lambda>c. if c = LF then CR else c) s"

definition normalize_line_endings :: "string \<Rightarrow> string" where
  "normalize_line_endings s = replace_lf (replace_crlf s)"

text \<open>\<open>re.sub(r'[<>:"/\\|?*]', '_', name)\<close>.\<close>

definition unsafe_chars :: "char list" where
  "unsafe_chars = [CHR ''<'', CHR ''>'', CHR '':'', CHR 0x22, CHR ''/'', CHR 0x5C,
                   CHR ''|'', CHR ''?'', CHR ''*'']"

definition sanitize :: "string \<Rightarrow> string" where
  "sanitize s = map (\<lambda>c. if c \<in> set unsafe_chars then CHR ''_'' else c) s"

text \<open>The exceptions the program raises or lets through, each with its message.\<close>

datatype error =
    ValueError string
  | KeyError string
  | IndexError string
  | TypeError string
  | HTTPError nat string
  | RequestException string
  | JSONDecodeError string

text \<open>\<open>str(e)\<close>; a \<open>KeyError\<close> prints the quoted key.\<close>

fun str_error :: "error \<Rightarrow> string" where
  "str_error (ValueError m) = m"
| "str_error (KeyError k) = [CHR 0x27] @ k @ [CHR 0x27]"
| "str_error (IndexError m) = m"
| "str_error (TypeError m) = m"
| "str_error (HTTPError code m) = m"
| "str_error (RequestException m) = m"
| "str_error (JSONDecodeError m) = m"

section \<open>Reload log streaming\<close>

text \<open>
  One call of \<open>get_reload_log\<close> as the loop sees it: either it raises, or it returns a
  body of which the loop reads \<open>status\<close> and \<open>log\<close> (each defaulting to the empty string
  when absent). Anything else that raises inside the \<open>try\<close> block while the body is
  read is a \<open>PollRaises\<close> too.
\<close>

datatype poll_result = PollRaises error | PollOk string string

record update =
  log :: string
  status :: string
  is_new :: bool
  is_complete :: bool

definition terminal_statuses :: "string list" where
  "terminal_statuses = [''SUCCEEDED'', ''FAILED'', ''CANCELLED'']"

text \<open>The synthetic update of the \<open>except\<close> branch.\<close>

definition error_update :: "error \<Rightarrow> update" where
  "error_update e =
     \<lparr> log = ''Error polling reload status: '' @ str_error e @ [LF],
       status = ''ERROR'', is_new = True, is_complete = True \<rparr>"

text \<open>The update built from a successful poll, given the length seen so far.\<close>

definition make_update :: "bool \<Rightarrow> nat \<Rightarrow> string \<Rightarrow> string \<Rightarrow> update" where
  "make_update clear_on_update last_log_length st log_content =
     (let current_status = upper st;
          new = (length log_content > last_log_length);
          complete = (current_status \<in> set terminal_statuses)
      in if clear_on_update then
           \<lparr> log = log_content, status = current_status, is_new = new, is_complete = complete \<rparr>
         else if new then
           \<lparr> log = drop last_log_length log_content, status = current_status,
             is_new = True, is_complete = complete \<rparr>
         else
           \<lparr> log = [], status = current_status, is_new = False, is_complete = complete \<rparr>)"

text \<open>
  \<open>time.sleep(poll_interval)\<close> raises \<open>ValueError\<close> on a negative interval, and the
  call sits inside the same \<open>try\<close> block. Only the sign of the interval matters, so it is
  an \<open>int\<close> here.
\<close>

definition sleep :: "int \<Rightarrow> error + unit" where
  "sleep secs =
     (if secs < 0 then Inl (ValueError ''sleep length must be non-negative'') else Inr ())"

text \<open>
  The \<open>while True\<close> loop of \<open>stream_reload_log\<close>. The remote service is the list of
  results its successive polls give; every iteration takes one. The result is the list
  of updates yielded and, when the generator has ended, the polls it never made. When the
  list runs out while the loop still wants to poll the second component is \<open>None\<close>.
\<close>

fun stream_loop ::
  "int \<Rightarrow> bool \<Rightarrow> nat \<Rightarrow> poll_result list \<Rightarrow> update list \<times> poll_result list option" where
  "stream_loop poll_interval clear_on_update last_log_length [] = ([], None)"
| "stream_loop poll_interval clear_on_update last_log_length (PollRaises e # rest) =
     ([error_update e], Some rest)"
| "stream_loop poll_interval clear_on_update last_log_length (PollOk st log_content # rest) =
     (let yield_data = make_update clear_on_update last_log_length st log_content;
          last_log_length' =
            (if length log_content > last_log_length then length log_content
             else last_log_length)
      in if is_complete yield_data then ([yield_data], Some rest)
         else (case sleep poll_interval of
                 Inl e \<Rightarrow> ([yield_data, error_update e], Some rest)
               | Inr _ \<Rightarrow>
                   (case stream_loop poll_interval clear_on_update last_log_length' rest of
                      (us, r) \<Rightarrow> (yield_data # us, r))))"

definition stream_reload_log ::
  "int \<Rightarrow> bool \<Rightarrow> poll_result list \<Rightarrow> update list \<times> poll_result list option" where
  "stream_reload_log poll_interval clear_on_update polls =
     stream_loop poll_interval clear_on_update 0 polls"

text \<open>A poll that returns a body whose status is not terminal.\<close>

fun running :: "poll_result \<Rightarrow> bool" where
  "running (PollRaises e) = False"
| "running (PollOk st log_content) = (upper st \<notin> set terminal_statuses)"

section \<open>Tab codec: splitting a script\<close>

text \<open>
  The pattern \<open>tab_pattern = r'///\$tab\s+([^\r\n]+)'\<close>: the literal text, one or more
  whitespace characters, then group 1, one or more characters that are neither CR nor LF.
\<close>

definition tab_literal :: string where
  "tab_literal = ''///$tab''"

definition is_eol :: "char \<Rightarrow> bool" where
  "is_eol c = (c = CR \<or> c = LF)"

text \<open>
  Both quantifiers are greedy and the engine backtracks. \<open>backtrack k r\<close> is the state
  in which \<open>\s+\<close> holds the first \<open>k\<close> characters of \<open>r\<close>: the group takes the longest
  run without CR and LF from there; when that run is empty \<open>\s+\<close> gives one character
  back, and it has to keep at least one. The result is the number of characters of
  \<open>\s+\<close> and the group.
\<close>

fun backtrack :: "nat \<Rightarrow> string \<Rightarrow> (nat \<times> string) option" where
  "backtrack 0 r = None"
| "backtrack (Suc k) r =
     (let g = takeWhile (\<lambda>c. \<not> is_eol c) (drop (Suc k) r)
      in if g \<noteq> [] then Some (Suc k, g) else backtrack k r)"

text \<open>
  An attempt to match the pattern at the head of \<open>s\<close>: the length of the whole match
  and group 1.
\<close>

definition match_at :: "string \<Rightarrow> (nat \<times> string) option" where
  "match_at s =
     (if take 7 s = tab_literal then
        (let r = drop 7 s
         in case backtrack (length (takeWhile is_space r)) r of
              None \<Rightarrow> None
            | Some (k, g) \<Rightarrow> Some (7 + k + length g, g))
      else None)"

text \<open>A match object: \<open>start()\<close>, \<open>end()\<close> and \<open>group(1)\<close>.\<close>

record match =
  m_start :: nat
  m_end :: nat
  m_group1 :: string

text \<open>
  \<open>re.finditer\<close>: the leftmost match from the current position, then on from its end;
  the matches do not overlap.
\<close>

function finditer_from :: "nat \<Rightarrow> string \<Rightarrow> match list" where
  "finditer_from pos s =
     (if length s \<le> pos then []
      else (case match_at (drop pos s) of
              Some (n, g) \<Rightarrow>
                \<lparr> m_start = pos, m_end = pos + n, m_group1 = g \<rparr> # finditer_from (pos + n) s
            | None \<Rightarrow> finditer_from (Suc pos) s))"
  by pat_completeness auto
termination
  by (relation "measure (\<lambda>(pos, s). length s - pos)")
     (auto simp: match_at_def Let_def split: if_splits option.splits)

declare finditer_from.simps [simp del]

definition finditer :: "string \<Rightarrow> match list" where
  "finditer s = finditer_from 0 s"

text \<open>\<open>str(i)\<close> of a natural number, as the f-string \<open>{i}\<close> prints it.\<close>

definition digit_char :: "nat \<Rightarrow> char" where
  "digit_char d = char_of (48 + d)"

fun str_of_nat :: "nat \<Rightarrow> string" where
  "str_of_nat n =
     (if n < 10 then [digit_char n] else str_of_nat (n div 10) @ [digit_char (n mod 10)])"

declare str_of_nat.simps [simp del]

text \<open>
  A Python \<open>dict\<close> keeps its keys in insertion order and assigning to a key that is
  present replaces the value in place: an association list.
\<close>

type_synonym tabs = "(string \<times> string) list"

definition dict_set :: "tabs \<Rightarrow> string \<Rightarrow> string \<Rightarrow> tabs" where
  "dict_set d k v =
     (if k \<in> fst ` set d then map (\<lambda>(k', v'). if k' = k then (k', v) else (k', v')) d
      else d @ [(k, v)])"

text \<open>The slice \<open>script[a:b]\<close> for \<open>a \<le> b\<close>.\<close>

definition slice :: "string \<Rightarrow> nat \<Rightarrow> nat \<Rightarrow> string" where
  "slice s a b = take (b - a) (drop a s)"

text \<open>The loop \<open>for i, match in enumerate(matches)\<close> of \<open>parse_script_tabs\<close>.\<close>

fun tab_loop :: "string \<Rightarrow> nat \<Rightarrow> match list \<Rightarrow> tabs \<Rightarrow> tabs" where
  "tab_loop script i [] tabs = tabs"
| "tab_loop script i (m # ms) tabs =
     (let tab_name = str_of_nat i @ ''___'' @ m_group1 m;
          start_pos = m_end m;
          end_pos = (case ms of [] \<Rightarrow> length script | m' # _ \<Rightarrow> m_start m');
          tab_content = strip (slice script start_pos end_pos)
      in tab_loop script (Suc i) ms (dict_set tabs tab_name tab_content))"

definition parse_script_tabs :: "string \<Rightarrow> tabs" where
  "parse_script_tabs script =
     (case finditer script of
        [] \<Rightarrow> [(''Main'', strip script)]
      | m0 # ms \<Rightarrow>
          (let first_tab_content = strip (take (m_start m0) script);
               tabs = (if first_tab_content \<noteq> [] then [(''Main'', first_tab_content)] else [])
           in tab_loop script 0 (m0 # ms) tabs))"

section \<open>Tab codec: files\<close>

text \<open>
  The directory \<open>scripts/<name>/<id>\<close> as its \<open>.qvs\<close> files, each a pair of filename
  stem and text content, in the order in which \<open>glob\<close> lists them. That order is the
  file system's; nothing below depends on it beyond what is stated.
\<close>

type_synonym qvs_file = "string \<times> string"

text \<open>Opening a file for writing replaces a file of that name, or adds one.\<close>

definition write_file :: "qvs_file list \<Rightarrow> string \<Rightarrow> string \<Rightarrow> qvs_file list" where
  "write_file dir stem content =
     (if stem \<in> fst ` set dir
      then map (\<lambda>(n, c). if n = stem then (n, content) else (n, c)) dir
      else dir @ [(stem, content)])"

text \<open>
  The loop of \<open>save_tabs_as_qvs_files\<close> over \<open>tabs.items()\<close>, from the directory as
  \<open>mkdir\<close> left it. The result is \<open>created_files\<close> (as stems) and the directory.
\<close>

fun save_loop :: "tabs \<Rightarrow> string list \<Rightarrow> qvs_file list \<Rightarrow> string list \<times> qvs_file list" where
  "save_loop [] created_files dir = (created_files, dir)"
| "save_loop ((tab_name, content) # rest) created_files dir =
     (let safe_name = sanitize tab_name;
          normalized_content = normalize_line_endings content
      in save_loop rest (created_files @ [safe_name]) (write_file dir safe_name normalized_content))"

definition save_tabs_as_qvs_files :: "tabs \<Rightarrow> qvs_file list \<Rightarrow> string list \<times> qvs_file list" where
  "save_tabs_as_qvs_files tabs dir = save_loop tabs [] dir"

text \<open>
  The sort key \<open>lambda x: x.stem[:3] if len(x.stem) >= 3 else x.stem\<close>, and
  \<open>sorted(xs, key=..., reverse=...)\<close>: a stable sort, and with \<open>reverse=True\<close> still a
  stable one, which is a stable ascending sort of the reversed list, reversed.
\<close>

definition stem_key :: "qvs_file \<Rightarrow> string" where
  "stem_key f = (if length (fst f) \<ge> 3 then take 3 (fst f) else fst f)"

definition sorted_py :: "('a \<Rightarrow> 'k::linorder) \<Rightarrow> bool \<Rightarrow> 'a list \<Rightarrow> 'a list" where
  "sorted_py key reverse xs =
     (if reverse then rev (sort_key key (rev xs)) else sort_key key xs)"

text \<open>
  The order of \<open>combine_tabs_from_files\<close>. A \<open>tab_order\<close> that is \<open>None\<close> or empty takes
  the \<open>else\<close> branch, which sorts with \<open>reverse=True\<close>. Files are compared by path, here
  by stem.
\<close>

definition file_dict :: "qvs_file list \<Rightarrow> string \<Rightarrow> qvs_file option" where
  "file_dict qvs_files t =
     (case filter (\<lambda>f. fst f = t) qvs_files of [] \<Rightarrow> None | f # fs \<Rightarrow> Some (last (f # fs)))"

fun append_missing :: "qvs_file list \<Rightarrow> qvs_file list \<Rightarrow> qvs_file list" where
  "append_missing [] ordered_files = ordered_files"
| "append_missing (f # fs) ordered_files =
     (if fst f \<in> fst ` set ordered_files then append_missing fs ordered_files
      else append_missing fs (ordered_files @ [f]))"

definition combine_order :: "string list option \<Rightarrow> qvs_file list \<Rightarrow> qvs_file list" where
  "combine_order tab_order qvs_files =
     (case tab_order of
        Some (t # ts) \<Rightarrow>
          append_missing qvs_files
            (concat (map (\<lambda>tab_name. case file_dict qvs_files tab_name of
                                        None \<Rightarrow> [] | Some f \<Rightarrow> [f]) (t # ts)))
      | _ \<Rightarrow> sorted_py stem_key True qvs_files)"

text \<open>
  The loop of \<open>combine_tabs_from_files\<close> over \<open>ordered_files\<close>;
  \<open>ordered_files.index(qvs_file) == 0\<close> holds when the first entry is that file.
\<close>

fun combine_loop :: "qvs_file list \<Rightarrow> qvs_file list \<Rightarrow> string list \<Rightarrow> string list" where
  "combine_loop ordered_files [] combined_script = combined_script"
| "combine_loop ordered_files (qvs_file # rest) combined_script =
     (let tab_name = fst qvs_file;
          content = strip (snd qvs_file)
      in if content = [] then combine_loop ordered_files rest combined_script
         else (let content' = normalize_line_endings content
               in if tab_name = ''Main'' \<and>
                     (case ordered_files of [] \<Rightarrow> False | g # _ \<Rightarrow> fst g = fst qvs_file)
                  then combine_loop ordered_files rest (combined_script @ [content'])
                  else combine_loop ordered_files rest
                         (combined_script @ [''///$tab '' @ tab_name @ [CR] @ content'])))"

text \<open>
  \<open>combine_tabs_from_files\<close> on the directory, \<open>None\<close> when it does not exist.
\<close>

definition combine_tabs_from_files ::
  "string list option \<Rightarrow> qvs_file list option \<Rightarrow> error + string" where
  "combine_tabs_from_files tab_order scripts_path =
     (case scripts_path of
        None \<Rightarrow> Inl (ValueError ''Directory does not exist'')
      | Some qvs_files \<Rightarrow>
          if qvs_files = [] then Inl (ValueError ''No .qvs files found'')
          else (let ordered_files = combine_order tab_order qvs_files
                in Inr (join [CR, CR] (combine_loop ordered_files ordered_files []))))"

text \<open>
  \<open>tab_name.split('___')\<close>: the pieces between the occurrences of the separator,
  found from the left without overlap. The first argument is the piece being read.
\<close>

fun split_sep :: "string \<Rightarrow> string \<Rightarrow> string list" where
  "split_sep cur (a # b # c # cs) =
     (if a = CHR ''_'' \<and> b = CHR ''_'' \<and> c = CHR ''_'' then cur # split_sep [] cs
      else split_sep (cur @ [a]) (b # c # cs))"
| "split_sep cur cs = [cur @ cs]"

text \<open>
  The loop of \<open>get_app_script_tabbed\<close>; \<open>tab_name.split('___')[1]\<close> raises
  \<open>IndexError\<close> when the split has a single piece.
\<close>

fun tabbed_loop :: "qvs_file list \<Rightarrow> string list \<Rightarrow> error + string list" where
  "tabbed_loop [] combined_parts = Inr combined_parts"
| "tabbed_loop (qvs_file # rest) combined_parts =
     (let tab_name = fst qvs_file;
          content = (if snd qvs_file \<noteq> [] then rstrip (snd qvs_file) else snd qvs_file)
      in if content = [] then tabbed_loop rest combined_parts
         else (let content' = normalize_line_endings content
               in case split_sep [] tab_name of
                    p0 # p1 # ps \<Rightarrow>
                      tabbed_loop rest (combined_parts @ [''///$tab '' @ p1 @ [CR] @ content'])
                  | _ \<Rightarrow> Inl (IndexError ''list index out of range'')))"

text \<open>The order of \<open>get_app_script_tabbed\<close>: the same key, \<open>reverse=False\<close>.\<close>

definition tabbed_order :: "qvs_file list \<Rightarrow> qvs_file list" where
  "tabbed_order qvs_files = sorted_py stem_key False qvs_files"

definition get_app_script_tabbed :: "qvs_file list option \<Rightarrow> error + string" where
  "get_app_script_tabbed script_dir =
     (case script_dir of
        None \<Rightarrow> Inl (ValueError ''Directory does not exist'')
      | Some qvs_files \<Rightarrow>
          if qvs_files = [] then Inl (ValueError ''No .qvs files found'')
          else (case tabbed_loop (tabbed_order qvs_files) [] of
                  Inl e \<Rightarrow> Inl e
                | Inr combined_parts \<Rightarrow> Inr (join [CR, CR] combined_parts)))"

text \<open>
  The fetch path followed by the reconstruction with the default order: the script is
  split, the tabs are written into the emptied directory, and the directory is combined.
\<close>

definition roundtrip :: "string \<Rightarrow> error + string" where
  "roundtrip script =
     combine_tabs_from_files None
       (Some (snd (save_tabs_as_qvs_files (parse_script_tabs script) [])))"

text \<open>
  The equivalence the specification's round-trip property names, written from its
  words and not from the code: two scripts are equal modulo whitespace trimming per tab,
  line-ending normalisation and index-prefix removal when they split into the same
  sequence of tabs, the contents compared after normalising line endings and the names
  compared after removing the index prefix (the text up to the first \<open>___\<close>) that the
  split adds, and on the reconstructed side possibly one more that the files carry.
\<close>

definition drop_index_prefix :: "string \<Rightarrow> string" where
  "drop_index_prefix key =
     (case split_sep [] key of p0 # p1 # ps \<Rightarrow> drop (length p0 + 3) key | _ \<Rightarrow> key)"

definition spec_tabs :: "string \<Rightarrow> (string \<times> string) list" where
  "spec_tabs script =
     map (\<lambda>(k, c). (drop_index_prefix k, normalize_line_endings c)) (parse_script_tabs script)"

definition spec_equal_modulo :: "string \<Rightarrow> string \<Rightarrow> bool" where
  "spec_equal_modulo out script =
     list_all2 (\<lambda>t' t. (fst t' = fst t \<or> drop_index_prefix (fst t') = fst t) \<and> snd t' = snd t)
       (spec_tabs out) (spec_tabs script)"

section \<open>Remote client\<close>

text \<open>
  A catalog entry of the \<open>/items\<close> listing, with the four keys the program reads; a
  key may be absent. \<open>app['name']\<close> and \<open>app['resourceId']\<close> raise \<open>KeyError\<close> on an
  absent key, \<open>app.get(...)\<close> gives \<open>None\<close>.
\<close>

record item =
  item_name :: "string option"
  item_resourceId :: "string option"
  item_id :: "string option"
  item_spaceId :: "string option"

text \<open>The body of \<open>/spaces/<id>\<close>, of which \<open>type\<close> and \<open>name\<close> are read.\<close>

record space =
  space_type :: "string option"
  space_name :: "string option"

text \<open>The dictionary \<open>app_dict\<close>; the last two keys are set only after the space lookup.\<close>

record app_dict =
  sanitizedAppName :: string
  appName :: "string option"
  appId :: "string option"
  appItemId :: "string option"
  spaceId :: "string option"
  spaceType :: "string option"
  spaceName :: "string option"

definition subscript :: "string \<Rightarrow> string option \<Rightarrow> error + string" where
  "subscript key v = (case v of None \<Rightarrow> Inl (KeyError key) | Some x \<Rightarrow> Inr x)"

text \<open>
  The request URL; \<open>if app_id:\<close> is false for \<open>None\<close> and for the empty string.
\<close>

definition items_url :: "string \<Rightarrow> string \<Rightarrow> string option \<Rightarrow> string" where
  "items_url base_url app_name app_id =
     (case app_id of
        Some (c # cs) \<Rightarrow>
          base_url @ ''/items?resourceType=app&spaceType=shared&name='' @ app_name @
          ''&resourceId='' @ (c # cs)
      | _ \<Rightarrow> base_url @ ''/items?resourceType=app&spaceType=shared&name='' @ app_name)"

text \<open>
  The f-string \<open>f"\n{app['name']} ({app['resourceId']})"\<close> and the loop that appends
  it to \<open>multiple_apps\<close> for every entry.
\<close>

definition app_line :: "item \<Rightarrow> error + string" where
  "app_line app =
     (case subscript ''name'' (item_name app) of
        Inl e \<Rightarrow> Inl e
      | Inr n \<Rightarrow>
          (case subscript ''resourceId'' (item_resourceId app) of
             Inl e \<Rightarrow> Inl e
           | Inr r \<Rightarrow> Inr ([LF] @ n @ '' ('' @ r @ '')'')))"

fun multiple_apps_loop :: "item list \<Rightarrow> string \<Rightarrow> error + string" where
  "multiple_apps_loop [] multiple_apps = Inr multiple_apps"
| "multiple_apps_loop (app # rest) multiple_apps =
     (case app_line app of
        Inl e \<Rightarrow> Inl e
      | Inr l \<Rightarrow> multiple_apps_loop rest (multiple_apps @ l))"

definition not_found_message :: "string \<Rightarrow> string" where
  "not_found_message app_name = ''No app found with name '' @ app_name"

definition indent :: string where
  "indent = replicate 12 (CHR '' '')"

definition ambiguous_message :: "string \<Rightarrow> string \<Rightarrow> string" where
  "ambiguous_message app_name multiple_apps =
     ''Multiple apps found similar or equal to '' @ [CHR 0xB4] @ app_name @ [CHR 0xB4] @ ''. '' @ [LF] @
     indent @ ''Please provide more specific app_name or bothapp_name & app_id to disambiguate.'' @ [LF] @
     indent @ ''Available apps: '' @ [LF] @
     indent @ multiple_apps @ [LF] @
     indent"

text \<open>
  \<open>get_app_by_name\<close>. The remote service is \<open>http_get\<close>, from the URL to the \<open>data\<close>
  list of the decoded body (empty when the key is absent) or to the exception of the
  request or of the decoding; \<open>get_space_type\<close> is the lookup of a space, called once
  for \<open>type\<close> and once for \<open>name\<close>. \<open>len(None)\<close> raises \<open>TypeError\<close>.
\<close>

definition get_app_by_name ::
  "(string \<Rightarrow> error + item list) \<Rightarrow> (string \<Rightarrow> error + space) \<Rightarrow> string \<Rightarrow>
   string \<Rightarrow> string option \<Rightarrow> error + app_dict" where
  "get_app_by_name http_get get_space_type base_url app_name app_id =
     (case http_get (items_url base_url app_name app_id) of
        Inl e \<Rightarrow> Inl e
      | Inr response_data \<Rightarrow>
          (case response_data of
             [] \<Rightarrow> Inl (ValueError (not_found_message app_name))
           | app # others \<Rightarrow>
               (case multiple_apps_loop response_data [] of
                  Inl e \<Rightarrow> Inl e
                | Inr multiple_apps \<Rightarrow>
                    if length response_data > 1
                    then Inl (ValueError (ambiguous_message app_name multiple_apps))
                    else (let d = \<lparr> sanitizedAppName =
                                      sanitize (case item_name app of None \<Rightarrow> [] | Some n \<Rightarrow> n),
                                    appName = item_name app,
                                    appId = item_resourceId app,
                                    appItemId = item_id app,
                                    spaceId = item_spaceId app,
                                    spaceType = None, spaceName = None \<rparr>
                          in case spaceId d of
                               None \<Rightarrow> Inl (TypeError ''object of type NoneType has no len()'')
                             | Some sid \<Rightarrow>
                                 if length sid > 0 then
                                   (case get_space_type sid of
                                      Inl e \<Rightarrow> Inl e
                                    | Inr sp1 \<Rightarrow>
                                        (case subscript ''type'' (space_type sp1) of
                                           Inl e \<Rightarrow> Inl e
                                         | Inr ty \<Rightarrow>
                                             (case get_space_type sid of
                                                Inl e \<Rightarrow> Inl e
                                              | Inr sp2 \<Rightarrow>
                                                  (case subscript ''name'' (space_name sp2) of
                                                     Inl e \<Rightarrow> Inl e
                                                   | Inr nm \<Rightarrow>
                                                       Inr (d\<lparr> spaceType := Some ty,
                                                               spaceName := Some nm \<rparr>)))))
                                 else Inr d))))"

text \<open>
  An HTTP response: status code, reason phrase, URL, and what \<open>.json()\<close> gives, a JSON
  object as a list of key and value or the decoding error. \<open>raise_for_status\<close> raises for
  the codes 400 to 599.
\<close>

record response =
  status_code :: nat
  reason :: string
  url :: string
  json :: "error + (string \<times> string) list"

definition raise_for_status :: "response \<Rightarrow> error + unit" where
  "raise_for_status r =
     (if 400 \<le> status_code r \<and> status_code r < 500 then
        Inl (HTTPError (status_code r)
               (str_of_nat (status_code r) @ '' Client Error: '' @ reason r @ '' for url: '' @ url r))
      else if 500 \<le> status_code r \<and> status_code r < 600 then
        Inl (HTTPError (status_code r)
               (str_of_nat (status_code r) @ '' Server Error: '' @ reason r @ '' for url: '' @ url r))
      else Inr ())"

text \<open>The payload of the reload request.\<close>

record payload =
  p_appId :: "string option"
  p_weight :: int
  p_partial :: bool

text \<open>
  \<open>reload_app\<close>, given what \<open>get_app_by_name\<close> returned or raised. \<open>http_post\<close> is
  the remote service, from URL and payload to the response or to the exception of the
  request. \<open>reload_data.get("id")\<close> is \<open>None\<close> when the key is absent, and that is
  returned.
\<close>

definition reload_app ::
  "(string \<Rightarrow> payload \<Rightarrow> error + response) \<Rightarrow> string \<Rightarrow> error + app_dict \<Rightarrow>
   int \<Rightarrow> bool \<Rightarrow> error + string option" where
  "reload_app http_post base_url app_info weight partial =
     (case app_info of
        Inl e \<Rightarrow> Inl e
      | Inr info \<Rightarrow>
          (case http_post (base_url @ ''/reloads'')
                  \<lparr> p_appId = appId info, p_weight = weight, p_partial = partial \<rparr> of
             Inl e \<Rightarrow> Inl e
           | Inr r \<Rightarrow>
               (case raise_for_status r of
                  Inl e \<Rightarrow> Inl e
                | Inr _ \<Rightarrow>
                    (case json r of
                       Inl e \<Rightarrow> Inl e
                     | Inr reload_data \<Rightarrow> Inr (map_of reload_data ''id'')))))"

section \<open>Properties of the tab codec\<close>

subsection \<open>The publish read path on files without the separator\<close>

lemma split_sep_no_separator:
  "\<not> (\<exists>a b. s = a @ ''___'' @ b) \<Longrightarrow> split_sep cur s = [cur @ s]"
proof (induction cur s rule: split_sep.induct)
  case (1 cur a b c cs)
  have nsep: "\<not> (a = CHR ''_'' \<and> b = CHR ''_'' \<and> c = CHR ''_'')"
  proof
    assume "a = CHR ''_'' \<and> b = CHR ''_'' \<and> c = CHR ''_''"
    then have "a # b # c # cs = [] @ ''___'' @ cs" by simp
    with 1(3) show False by blast
  qed
  have "\<not> (\<exists>x y. b # c # cs = x @ ''___'' @ y)"
  proof
    assume "\<exists>x y. b # c # cs = x @ ''___'' @ y"
    then obtain x y where "b # c # cs = x @ ''___'' @ y" by blast
    then have "a # b # c # cs = (a # x) @ ''___'' @ y" by simp
    with 1(3) show False by blast
  qed
  with 1(2) nsep have "split_sep (cur @ [a]) (b # c # cs) = [(cur @ [a]) @ b # c # cs]"
    by blast
  with nsep show ?case by simp
qed simp_all

lemma tabbed_loop_index_error:
  assumes "(stem, content) \<in> set fs"
    and "rstrip content \<noteq> []"
    and "\<not> (\<exists>a b. stem = a @ ''___'' @ b)"
  shows "tabbed_loop fs acc = Inl (IndexError ''list index out of range'')"
  using assms(1)
proof (induction fs arbitrary: acc)
  case Nil
  then show ?case by simp
next
  case (Cons f fs)
  show ?case
  proof (cases "f = (stem, content)")
    case True
    have "content \<noteq> []" using assms(2) by (auto simp: rstrip_def)
    with True assms(2) split_sep_no_separator [OF assms(3), of "[]"] show ?thesis
      by (simp add: Let_def)
  next
    case False
    with Cons.prems have "(stem, content) \<in> set fs" by simp
    from Cons.IH [OF this] show ?thesis
      by (simp add: Let_def split: list.splits)
  qed
qed

text \<open>
  C10. When the directory holds a file whose stem does not contain \<open>___\<close> and whose
  content is not empty once trailing whitespace is removed, \<open>get_app_script_tabbed\<close>
  does not return a script: it raises \<open>IndexError\<close>. The file \<open>Main.qvs\<close> that the
  fetch path writes for the text before the first marker is such a file.
\<close>

theorem get_app_script_tabbed_fails_without_separator:
  assumes "(stem, content) \<in> set qvs_files"
    and "rstrip content \<noteq> []"
    and "\<not> (\<exists>a b. stem = a @ ''___'' @ b)"
  shows "get_app_script_tabbed (Some qvs_files) = Inl (IndexError ''list index out of range'')"
proof -
  have "(stem, content) \<in> set (tabbed_order qvs_files)"
    using assms(1) by (simp add: tabbed_order_def sorted_py_def)
  from tabbed_loop_index_error [OF this assms(2,3), of "[]"] assms(1) show ?thesis
    by (auto simp: get_app_script_tabbed_def)
qed

lemma no_separator_in_Main: "\<not> (\<exists>a b. ''Main'' = a @ ''___'' @ b)"
proof
  assume "\<exists>a b. ''Main'' = a @ ''___'' @ b"
  then obtain a b where "''Main'' = a @ ''___'' @ b" by blast
  then have "CHR ''_'' \<in> set ''Main''" by (metis in_set_conv_decomp append_Cons)
  then show False by simp
qed

theorem get_app_script_tabbed_fails_without_separator_witness:
  "(''Main'', ''A'') \<in> set (snd (save_tabs_as_qvs_files
       (parse_script_tabs (''A'' @ [CR] @ ''///$tab X'' @ [CR] @ ''B'')) []))
   \<and> rstrip ''A'' \<noteq> []
   \<and> get_app_script_tabbed (Some (snd (save_tabs_as_qvs_files
       (parse_script_tabs (''A'' @ [CR] @ ''///$tab X'' @ [CR] @ ''B'')) [])))
     = Inl (IndexError ''list index out of range'')"
proof -
  have a: "(''Main'', ''A'') \<in> set (snd (save_tabs_as_qvs_files
       (parse_script_tabs (''A'' @ [CR] @ ''///$tab X'' @ [CR] @ ''B'')) []))"
    by code_simp
  have b: "rstrip ''A'' \<noteq> []"
    by code_simp
  from get_app_script_tabbed_fails_without_separator [OF a b no_separator_in_Main] a b
  show ?thesis by simp
qed


subsection \<open>Processing order\<close>




subsection \<open>Round trip and markers\<close>

text \<open>
  C1, at the script of the specification's own example,
  \<open>"A\r///$tab X\rB\r///$tab Y\rC"\<close>: fetching and reconstructing with the default
  order returns \<open>"A\r\r///$tab 1___Y\rC\r\r///$tab 0___X\rB"\<close>. The tabs \<open>X\<close> and
  \<open>Y\<close> come back in the opposite order, so the result is not equal to the script modulo
  trimming, line endings and index prefixes.
\<close>

theorem roundtrip_reverses_tabs:
  "roundtrip (''A'' @ [CR] @ ''///$tab X'' @ [CR] @ ''B'' @ [CR] @ ''///$tab Y'' @ [CR] @ ''C'')
     = Inr (''A'' @ [CR, CR] @ ''///$tab 1___Y'' @ [CR] @ ''C'' @ [CR, CR] @
            ''///$tab 0___X'' @ [CR] @ ''B'')
   \<and> \<not> spec_equal_modulo
         (''A'' @ [CR, CR] @ ''///$tab 1___Y'' @ [CR] @ ''C'' @ [CR, CR] @
          ''///$tab 0___X'' @ [CR] @ ''B'')
         (''A'' @ [CR] @ ''///$tab X'' @ [CR] @ ''B'' @ [CR] @ ''///$tab Y'' @ [CR] @ ''C'')"
  by code_simp

text \<open>
  With a single marker there is nothing to reorder and the same comparison succeeds.
\<close>

lemma roundtrip_single_marker_example:
  "roundtrip (''A'' @ [CR] @ ''///$tab X'' @ [CR] @ ''B'')
     = Inr (''A'' @ [CR, CR] @ ''///$tab 0___X'' @ [CR] @ ''B'')
   \<and> spec_equal_modulo (''A'' @ [CR, CR] @ ''///$tab 0___X'' @ [CR] @ ''B'')
        (''A'' @ [CR] @ ''///$tab X'' @ [CR] @ ''B'')"
  by code_simp

text \<open>
  C3, at the directory that fetching \<open>"A\r///$tab X\rB"\<close> writes, the files
  \<open>Main\<close> and \<open>0___X\<close>. \<open>combine_tabs_from_files\<close> emits \<open>Main\<close> unmarked and
  then the marker \<open>///$tab 0___X\<close>, index prefix included. \<open>get_app_script_tabbed\<close>
  raises on \<open>Main\<close>; on \<open>0___X\<close> alone it emits the marker \<open>///$tab X\<close>, and for
  the stem \<open>0___X___Y\<close> it emits \<open>///$tab X\<close> too, the piece between the first two
  separators.
\<close>

theorem reconstruction_markers_at_fetched_directory:
  "snd (save_tabs_as_qvs_files (parse_script_tabs (''A'' @ [CR] @ ''///$tab X'' @ [CR] @ ''B'')) [])
     = [(''Main'', ''A''), (''0___X'', ''B'')]
   \<and> combine_tabs_from_files None (Some [(''Main'', ''A''), (''0___X'', ''B'')])
     = Inr (''A'' @ [CR, CR] @ ''///$tab 0___X'' @ [CR] @ ''B'')
   \<and> get_app_script_tabbed (Some [(''Main'', ''A''), (''0___X'', ''B'')])
     = Inl (IndexError ''list index out of range'')
   \<and> get_app_script_tabbed (Some [(''0___X'', ''B'')])
     = Inr (''///$tab X'' @ [CR] @ ''B'')
   \<and> get_app_script_tabbed (Some [(''0___X___Y'', ''B'')])
     = Inr (''///$tab X'' @ [CR] @ ''B'')"
  by code_simp

subsection \<open>Where a marker is recognised\<close>

















section \<open>Properties of the remote client\<close>

lemma multiple_apps_loop_all_named:
  assumes "\<forall>app \<in> set xs. item_name app \<noteq> None \<and> item_resourceId app \<noteq> None"
  shows "\<exists>m. multiple_apps_loop xs acc = Inr (acc @ m) \<and>
           (\<forall>app \<in> set xs. \<exists>pre post.
              m = pre @ [LF] @ the (item_name app) @ '' ('' @ the (item_resourceId app) @ '')'' @ post)"
  using assms
proof (induction xs arbitrary: acc)
  case Nil
  then show ?case by simp
next
  case (Cons a xs)
  from Cons.prems obtain n r where n: "item_name a = Some n" and r: "item_resourceId a = Some r"
    by auto
  define l where "l = [LF] @ n @ '' ('' @ r @ '')''"
  have line: "app_line a = Inr l"
    by (simp add: app_line_def subscript_def n r l_def)
  from Cons.IH [of "acc @ l"] Cons.prems obtain m where
    m: "multiple_apps_loop xs (acc @ l) = Inr ((acc @ l) @ m)" and
    each: "\<forall>app \<in> set xs. \<exists>pre post.
              m = pre @ [LF] @ the (item_name app) @ '' ('' @ the (item_resourceId app) @ '')'' @ post"
    by auto
  have run: "multiple_apps_loop (a # xs) acc = Inr (acc @ (l @ m))"
    using line m by simp
  have "\<exists>pre post. l @ m =
          pre @ [LF] @ the (item_name app) @ '' ('' @ the (item_resourceId app) @ '')'' @ post"
    if "app \<in> set (a # xs)" for app
  proof (cases "app = a")
    case True
    have "l @ m = [] @ [LF] @ the (item_name a) @ '' ('' @ the (item_resourceId a) @ '')'' @ m"
      by (simp add: l_def n r)
    with True show ?thesis by blast
  next
    case False
    with that have "app \<in> set xs" by simp
    with each obtain pre post where
      "m = pre @ [LF] @ the (item_name app) @ '' ('' @ the (item_resourceId app) @ '')'' @ post"
      by blast
    then have "l @ m = (l @ pre) @ [LF] @ the (item_name app) @ '' ('' @
                 the (item_resourceId app) @ '')'' @ post"
      by simp
    then show ?thesis by blast
  qed
  with run show ?case by blast
qed

text \<open>
  C5. When the catalog returns no entry for the name, \<open>get_app_by_name\<close> raises the
  error "No app found with name ...". When it returns two or more entries, each
  carrying a name and a resource identifier, it raises the "Multiple apps found" error,
  and the message contains \<open>name (identifier)\<close> for every entry. Both are
  \<open>ValueError\<close>s, told apart by their message. The second holds whether or not an
  identifier was passed, so in particular when none was.
\<close>

theorem get_app_by_name_not_found_or_ambiguous:
  assumes "http_get (items_url base_url app_name app_id) = Inr response_data"
  shows "(response_data = [] \<longrightarrow>
            get_app_by_name http_get get_space_type base_url app_name app_id =
              Inl (ValueError (''No app found with name '' @ app_name)))
       \<and> (2 \<le> length response_data \<and>
          (\<forall>app \<in> set response_data. item_name app \<noteq> None \<and> item_resourceId app \<noteq> None) \<longrightarrow>
            (\<exists>m. get_app_by_name http_get get_space_type base_url app_name app_id =
                    Inl (ValueError (ambiguous_message app_name m)) \<and>
                 (\<forall>app \<in> set response_data. \<exists>pre post.
                    ambiguous_message app_name m =
                      pre @ the (item_name app) @ '' ('' @ the (item_resourceId app) @ '')'' @ post)))"
proof (intro conjI impI)
  assume "response_data = []"
  with assms show "get_app_by_name http_get get_space_type base_url app_name app_id =
              Inl (ValueError (''No app found with name '' @ app_name))"
    by (simp add: get_app_by_name_def not_found_message_def)
next
  assume h: "2 \<le> length response_data \<and>
          (\<forall>app \<in> set response_data. item_name app \<noteq> None \<and> item_resourceId app \<noteq> None)"
  then obtain a b rest where rd: "response_data = a # b # rest"
    by (cases response_data; cases "tl response_data") auto
  from h multiple_apps_loop_all_named [of response_data "[]"] obtain m where
    m: "multiple_apps_loop response_data [] = Inr m" and
    each: "\<forall>app \<in> set response_data. \<exists>pre post.
              m = pre @ [LF] @ the (item_name app) @ '' ('' @ the (item_resourceId app) @ '')'' @ post"
    by auto
  have res: "get_app_by_name http_get get_space_type base_url app_name app_id =
               Inl (ValueError (ambiguous_message app_name m))"
    using assms m by (simp add: get_app_by_name_def rd)
  have "\<exists>pre post. ambiguous_message app_name m =
          pre @ the (item_name app) @ '' ('' @ the (item_resourceId app) @ '')'' @ post"
    if "app \<in> set response_data" for app
  proof -
    from each that obtain pre post where
      "m = pre @ [LF] @ the (item_name app) @ '' ('' @ the (item_resourceId app) @ '')'' @ post"
      by blast
    then obtain A B where "ambiguous_message app_name m =
        (A @ pre @ [LF]) @ the (item_name app) @ '' ('' @ the (item_resourceId app) @ '')'' @ (post @ B)"
      unfolding ambiguous_message_def by (metis append_assoc)
    then show ?thesis by blast
  qed
  with res show "\<exists>m. get_app_by_name http_get get_space_type base_url app_name app_id =
                    Inl (ValueError (ambiguous_message app_name m)) \<and>
                 (\<forall>app \<in> set response_data. \<exists>pre post.
                    ambiguous_message app_name m =
                      pre @ the (item_name app) @ '' ('' @ the (item_resourceId app) @ '')'' @ post)"
    by blast
qed


theorem get_app_by_name_not_found_or_ambiguous_witness:
  "get_app_by_name (\<lambda>u. Inr []) (\<lambda>s. Inl (RequestException [])) ''https://t/api/v1'' ''Sales'' None =
     Inl (ValueError ''No app found with name Sales'')
   \<and> (\<exists>m. get_app_by_name
           (\<lambda>u. Inr [\<lparr>item_name = Some ''Sales'', item_resourceId = Some ''r1'',
                        item_id = Some ''i1'', item_spaceId = Some ''s1''\<rparr>,
                      \<lparr>item_name = Some ''Sales EU'', item_resourceId = Some ''r2'',
                        item_id = Some ''i2'', item_spaceId = Some ''s1''\<rparr>])
           (\<lambda>s. Inl (RequestException [])) ''https://t/api/v1'' ''Sales'' None =
           Inl (ValueError (ambiguous_message ''Sales'' m)) \<and>
         (\<exists>pre post. ambiguous_message ''Sales'' m = pre @ ''Sales (r1)'' @ post) \<and>
         (\<exists>pre post. ambiguous_message ''Sales'' m = pre @ ''Sales EU (r2)'' @ post))"
proof -
  let ?a = "\<lparr>item_name = Some ''Sales'', item_resourceId = Some ''r1'',
             item_id = Some ''i1'', item_spaceId = Some ''s1''\<rparr>"
  let ?b = "\<lparr>item_name = Some ''Sales EU'', item_resourceId = Some ''r2'',
             item_id = Some ''i2'', item_spaceId = Some ''s1''\<rparr>"
  have e: "(\<lambda>u. Inr []) (items_url ''https://t/api/v1'' ''Sales'' None) = (Inr [] :: error + item list)"
    by simp
  have t: "(\<lambda>u. Inr [?a, ?b]) (items_url ''https://t/api/v1'' ''Sales'' None) =
             (Inr [?a, ?b] :: error + item list)"
    by simp
  from get_app_by_name_not_found_or_ambiguous [OF e, of "\<lambda>s. Inl (RequestException [])"]
  have first: "get_app_by_name (\<lambda>u. Inr []) (\<lambda>s. Inl (RequestException []))
                 ''https://t/api/v1'' ''Sales'' None =
               Inl (ValueError ''No app found with name Sales'')"
    by simp
  from get_app_by_name_not_found_or_ambiguous [OF t, of "\<lambda>s. Inl (RequestException [])"]
  have second: "\<exists>m. get_app_by_name (\<lambda>u. Inr [?a, ?b]) (\<lambda>s. Inl (RequestException []))
                    ''https://t/api/v1'' ''Sales'' None =
                  Inl (ValueError (ambiguous_message ''Sales'' m)) \<and>
                (\<exists>pre post. ambiguous_message ''Sales'' m = pre @ ''Sales (r1)'' @ post) \<and>
                (\<exists>pre post. ambiguous_message ''Sales'' m = pre @ ''Sales EU (r2)'' @ post)"
    by simp
  from first second show ?thesis by blast
qed

text \<open>
  C9, as stated. The service answers 201 with a body that has no \<open>id\<close>:
  \<open>reload_app\<close> raises nothing and returns \<open>None\<close>.
\<close>

theorem reload_app_missing_id_counterexample:
  "reload_app
     (\<lambda>u p. Inr \<lparr>status_code = 201, reason = ''Created'', url = u,
                    json = Inr [(''status'', ''QUEUED'')]\<rparr>)
     ''https://t/api/v1''
     (Inr \<lparr>sanitizedAppName = ''Sales'', appName = Some ''Sales'', appId = Some ''r1'',
            appItemId = Some ''i1'', spaceId = Some [], spaceType = None, spaceName = None\<rparr>)
     1 False = Inr None"
  by code_simp

text \<open>
  C9, amended. Once the application is resolved and the request has been answered,
  \<open>reload_app\<close> raises \<open>HTTPError\<close> when the status code is between 400 and 599;
  otherwise, when the body decodes, it returns the value under \<open>id\<close>, which is
  \<open>None\<close>, and no error, when the body has no such key.
\<close>

theorem reload_app_result:
  assumes "http_post (base_url @ ''/reloads'')
             \<lparr>p_appId = appId info, p_weight = weight, p_partial = partial\<rparr> = Inr r"
  shows "(400 \<le> status_code r \<and> status_code r < 600 \<longrightarrow>
            (\<exists>m. reload_app http_post base_url (Inr info) weight partial =
                   Inl (HTTPError (status_code r) m)))
       \<and> (\<not> (400 \<le> status_code r \<and> status_code r < 600) \<and> json r = Inr reload_data \<longrightarrow>
            reload_app http_post base_url (Inr info) weight partial =
              Inr (map_of reload_data ''id'') \<and>
            (''id'' \<notin> fst ` set reload_data \<longrightarrow>
               reload_app http_post base_url (Inr info) weight partial = Inr None))"
  using assms
  by (auto simp: reload_app_def raise_for_status_def map_of_eq_None_iff)

theorem reload_app_result_witness:
  "(\<exists>m. reload_app
          (\<lambda>u p. Inr \<lparr>status_code = 404, reason = ''Not Found'', url = u, json = Inr []\<rparr>)
          ''https://t/api/v1''
          (Inr \<lparr>sanitizedAppName = ''Sales'', appName = Some ''Sales'', appId = Some ''r1'',
                 appItemId = Some ''i1'', spaceId = Some [], spaceType = None, spaceName = None\<rparr>)
          1 False = Inl (HTTPError 404 m))
   \<and> reload_app
          (\<lambda>u p. Inr \<lparr>status_code = 201, reason = ''Created'', url = u,
                         json = Inr [(''id'', ''rl-7'')]\<rparr>)
          ''https://t/api/v1''
          (Inr \<lparr>sanitizedAppName = ''Sales'', appName = Some ''Sales'', appId = Some ''r1'',
                 appItemId = Some ''i1'', spaceId = Some [], spaceType = None, spaceName = None\<rparr>)
          1 False = Inr (Some ''rl-7'')
   \<and> reload_app
          (\<lambda>u p. Inr \<lparr>status_code = 201, reason = ''Created'', url = u, json = Inr []\<rparr>)
          ''https://t/api/v1''
          (Inr \<lparr>sanitizedAppName = ''Sales'', appName = Some ''Sales'', appId = Some ''r1'',
                 appItemId = Some ''i1'', spaceId = Some [], spaceType = None, spaceName = None\<rparr>)
          1 False = Inr None"
proof -
  let ?info = "\<lparr>sanitizedAppName = ''Sales'', appName = Some ''Sales'', appId = Some ''r1'',
                 appItemId = Some ''i1'', spaceId = Some [], spaceType = None, spaceName = None\<rparr>"
  let ?p = "\<lparr>p_appId = appId ?info, p_weight = 1, p_partial = False\<rparr>"
  let ?u = "''https://t/api/v1'' @ ''/reloads''"
  let ?r1 = "\<lparr>status_code = 404, reason = ''Not Found'', url = ?u, json = Inr []\<rparr>"
  let ?r2 = "\<lparr>status_code = 201, reason = ''Created'', url = ?u, json = Inr [(''id'', ''rl-7'')]\<rparr>"
  let ?r3 = "\<lparr>status_code = 201, reason = ''Created'', url = ?u, json = Inr []\<rparr>"
  let ?h1 = "\<lambda>(u::string) (p::payload).
               (Inr \<lparr>status_code = 404, reason = ''Not Found'', url = u, json = Inr []\<rparr>
                :: error + response)"
  let ?h2 = "\<lambda>(u::string) (p::payload).
               (Inr \<lparr>status_code = 201, reason = ''Created'', url = u,
                      json = Inr [(''id'', ''rl-7'')]\<rparr> :: error + response)"
  let ?h3 = "\<lambda>(u::string) (p::payload).
               (Inr \<lparr>status_code = 201, reason = ''Created'', url = u, json = Inr []\<rparr>
                :: error + response)"
  from reload_app_result [where http_post = ?h1 and base_url = "''https://t/api/v1''"
      and info = ?info and weight = 1 and partial = False and r = ?r1 and reload_data = "[]"]
  have first: "\<exists>m. reload_app ?h1 ''https://t/api/v1'' (Inr ?info) 1 False = Inl (HTTPError 404 m)"
    by simp
  from reload_app_result [where http_post = ?h2 and base_url = "''https://t/api/v1''"
      and info = ?info and weight = 1 and partial = False and r = ?r2
      and reload_data = "[(''id'', ''rl-7'')]"]
  have second: "reload_app ?h2 ''https://t/api/v1'' (Inr ?info) 1 False = Inr (Some ''rl-7'')"
    by simp
  from reload_app_result [where http_post = ?h3 and base_url = "''https://t/api/v1''"
      and info = ?info and weight = 1 and partial = False and r = ?r3 and reload_data = "[]"]
  have third: "reload_app ?h3 ''https://t/api/v1'' (Inr ?info) 1 False = Inr None"
    by simp
  from first second third show ?thesis by blast
qed


section \<open>Properties of the streaming loop\<close>

lemma stream_loop_running_prefix:
  assumes "\<forall>p \<in> set pre. running p" and "0 \<le> poll_interval"
  shows "\<exists>us n. length us = length pre \<and>
           stream_loop poll_interval c k (pre @ later) =
             (us @ fst (stream_loop poll_interval c n later),
              snd (stream_loop poll_interval c n later))"
  using assms
proof (induction pre arbitrary: k)
  case Nil
  show ?case by (rule exI [of _ "[]"], rule exI [of _ k]) simp
next
  case (Cons p pre)
  from Cons.prems obtain st lg where p: "p = PollOk st lg" and nt: "upper st \<notin> set terminal_statuses"
    by (cases p) auto
  define k' where "k' = (if length lg > k then length lg else k)"
  from Cons.IH [of k'] Cons.prems obtain us n where
    us: "length us = length pre" and
    eq: "stream_loop poll_interval c k' (pre @ later) =
           (us @ fst (stream_loop poll_interval c n later), snd (stream_loop poll_interval c n later))"
    by auto
  have nc: "\<not> is_complete (make_update c k st lg)"
    using nt by (simp add: make_update_def Let_def)
  have "stream_loop poll_interval c k ((p # pre) @ later) =
          ((make_update c k st lg # us) @ fst (stream_loop poll_interval c n later),
           snd (stream_loop poll_interval c n later))"
    using nc eq Cons.prems(2) by (simp add: p Let_def sleep_def k'_def)
  moreover have "length (make_update c k st lg # us) = length (p # pre)"
    using us by simp
  ultimately show ?case by blast
qed

text \<open>
  C7. When a poll returns a status that upper-cases to SUCCEEDED, FAILED or CANCELLED,
  after any number of polls that returned a non-terminal status, the stream yields one
  update per earlier poll, then the update of this poll, marked complete and carrying the
  upper-cased status, and ends: the polls after it are never made.
\<close>

theorem stream_stops_at_terminal_status:
  assumes "\<forall>p \<in> set pre. running p"
    and "0 \<le> poll_interval"
    and "upper st \<in> set terminal_statuses"
  shows "\<exists>us u. stream_reload_log poll_interval c (pre @ PollOk st lg # rest) =
                  (us @ [u], Some rest) \<and>
                length us = length pre \<and> status u = upper st \<and> is_complete u"
proof -
  from stream_loop_running_prefix [OF assms(1,2), of c 0 "PollOk st lg # rest"]
  obtain us n where us: "length us = length pre" and
    eq: "stream_loop poll_interval c 0 (pre @ PollOk st lg # rest) =
           (us @ fst (stream_loop poll_interval c n (PollOk st lg # rest)),
            snd (stream_loop poll_interval c n (PollOk st lg # rest)))"
    by blast
  have comp: "is_complete (make_update c n st lg)" and st: "status (make_update c n st lg) = upper st"
    using assms(3) by (simp_all add: make_update_def Let_def)
  have "stream_loop poll_interval c n (PollOk st lg # rest) = ([make_update c n st lg], Some rest)"
    using comp by (simp add: Let_def)
  with eq have "stream_reload_log poll_interval c (pre @ PollOk st lg # rest) =
                  (us @ [make_update c n st lg], Some rest)"
    by (simp add: stream_reload_log_def)
  with us comp st show ?thesis by blast
qed

theorem stream_stops_at_terminal_status_witness:
  "\<exists>us u. stream_reload_log 1 False
             [PollOk ''RUNNING'' ''a'', PollOk ''Succeeded'' ''ab'', PollOk ''RUNNING'' ''abc''] =
             (us @ [u], Some [PollOk ''RUNNING'' ''abc'']) \<and>
           length us = 1 \<and> status u = ''SUCCEEDED'' \<and> is_complete u"
proof -
  have a: "\<forall>p \<in> set [PollOk ''RUNNING'' ''a'']. running p"
    by code_simp
  have b: "upper ''Succeeded'' \<in> set terminal_statuses"
    by code_simp
  have c: "upper ''Succeeded'' = ''SUCCEEDED''"
    by code_simp
  have d: "(0::int) \<le> 1"
    by simp
  from stream_stops_at_terminal_status [OF a d b, of False "''ab''" "[PollOk ''RUNNING'' ''abc'']"]
  show ?thesis
    unfolding c by simp
qed

text \<open>
  C8. When a poll raises, after any number of polls that returned a non-terminal
  status, the stream yields exactly one further update, the synthetic one: its log is the
  error text, its status is ERROR and it is marked complete. The generator then ends and
  the polls after it are never made.
\<close>

theorem stream_error_update_then_stop:
  assumes "\<forall>p \<in> set pre. running p"
    and "0 \<le> poll_interval"
  shows "\<exists>us. stream_reload_log poll_interval c (pre @ PollRaises e # rest) =
                (us @ [\<lparr> log = ''Error polling reload status: '' @ str_error e @ [LF],
                         status = ''ERROR'', is_new = True, is_complete = True \<rparr>],
                 Some rest) \<and>
              length us = length pre"
proof -
  from stream_loop_running_prefix [OF assms, of c 0 "PollRaises e # rest"]
  obtain us n where us: "length us = length pre" and
    eq: "stream_loop poll_interval c 0 (pre @ PollRaises e # rest) =
           (us @ fst (stream_loop poll_interval c n (PollRaises e # rest)),
            snd (stream_loop poll_interval c n (PollRaises e # rest)))"
    by blast
  from eq have "stream_reload_log poll_interval c (pre @ PollRaises e # rest) =
                  (us @ [error_update e], Some rest)"
    by (simp add: stream_reload_log_def)
  with us show ?thesis
    by (auto simp: error_update_def)
qed

theorem stream_error_update_then_stop_witness:
  "\<exists>us. stream_reload_log 1 True
           [PollOk ''queued'' [], PollRaises (RequestException ''timed out''),
            PollOk ''SUCCEEDED'' ''done''] =
           (us @ [\<lparr> log = ''Error polling reload status: timed out'' @ [LF],
                    status = ''ERROR'', is_new = True, is_complete = True \<rparr>],
            Some [PollOk ''SUCCEEDED'' ''done'']) \<and>
         length us = 1"
proof -
  have a: "\<forall>p \<in> set [PollOk ''queued'' []]. running p"
    by code_simp
  have d: "(0::int) \<le> 1"
    by simp
  from stream_error_update_then_stop [OF a d, of True "RequestException ''timed out''"
      "[PollOk ''SUCCEEDED'' ''done'']"]
  show ?thesis by simp
qed





end
